theory Spec2Isabelle
  imports Complex_Main
begin

section \<open>Scalar field expressions of fdaPDE-core\<close>

text \<open>
  A shallow embedding of \<^verbatim>\<open>fdaPDE/fields/scalar_expressions.h\<close> and
  \<^verbatim>\<open>fdaPDE/utils/assert.h\<close>.

  \<^item> The C++ type \<^verbatim>\<open>double\<close> is the type variable \<open>'d\<close>. It carries the
    operations the header applies to doubles (\<open>+\<close>, \<open>-\<close>, \<open>*\<close>, \<open>/\<close>, unary minus and
    the literal \<open>0\<close>) through the syntactic type classes only, so no law of arithmetic
    is assumed: what is proved holds for IEEE-754 doubles as for the reals.
  \<^item> A point (\<^verbatim>\<open>SVector<N>\<close> or \<^verbatim>\<open>DVector<double>\<close>) is a list of doubles;
    \<^verbatim>\<open>p.rows()\<close> is its length.
  \<^item> The template parameter \<^verbatim>\<open>N\<close> is an explicit argument of every function that
    depends on it. All nodes of one tree share it: the overloaded operators take
    operands of type \<^verbatim>\<open>ScalarExpr<N, E>\<close> for one \<^verbatim>\<open>N\<close>.
  \<^item> Every node class sets \<^verbatim>\<open>NestAsRef = 0\<close>, so a composite node stores copies of
    its operands: an expression is a tree that owns its children.
  \<^item> \<^verbatim>\<open>throw std::runtime_error\<close> is the result \<open>Inl (runtime_error msg)\<close>.
  \<^item> The member \<^verbatim>\<open>h_\<close> (step of the derivative approximations) is left out: the
    classes that read it, \<^verbatim>\<open>ScalarExprGradient\<close> and \<^verbatim>\<open>ScalarExprHessian\<close>, are only
    declared in the header.
  Members are written without the trailing underscore of the source
  (\<^verbatim>\<open>dynamic_inner_size_\<close>, \<^verbatim>\<open>value_\<close>, \<^verbatim>\<open>data_\<close>, \<^verbatim>\<open>op1_\<close>, \<^verbatim>\<open>f_\<close>).
\<close>

subsection \<open>assert.h\<close>

datatype error = runtime_error string | undefined_behaviour

text \<open>
  \<^verbatim>\<open>#define fdapde_assert(condition)
     if (!(condition)) throw std::runtime_error("Condition " #condition " failed")\<close>
  The second argument is the text of the condition, which the macro stringifies.
\<close>

definition fdapde_assert :: "bool \<Rightarrow> string \<Rightarrow> error + unit" where
  "fdapde_assert condition text =
     (if condition then Inr () else Inl (runtime_error (''Condition '' @ text @ '' failed'')))"

subsection \<open>Collaborators declared outside the header\<close>

text \<open>
  Modelled from the spec: the sentinel \<^verbatim>\<open>Dynamic\<close> is declared in
  \<^verbatim>\<open>utils/symbols.h\<close>, which is not among the sources. The spec only says that it is
  a sentinel distinct from every fixed positive arity; no theorem below depends on its
  value.
\<close>

definition Dynamic :: int where
  "Dynamic = - 1"

text \<open>
  Modelled from the spec: \<^verbatim>\<open>DMatrix<double, Eigen::RowMajor>\<close> is Eigen's dense matrix,
  of which the header uses the element access \<^verbatim>\<open>operator()(i, 0)\<close> only. A matrix is
  the list of its rows. Reading outside the matrix is undefined in Eigen (an assertion in
  debug builds); the model returns \<open>undefined_behaviour\<close>.
\<close>

type_synonym 'd DMatrix = "'d list list"

definition coeff :: "'d DMatrix \<Rightarrow> int \<Rightarrow> int \<Rightarrow> error + 'd" where
  "coeff m i j =
     (if 0 \<le> i \<and> i < int (length m) \<and> 0 \<le> j \<and> j < int (length (m ! nat i))
      then Inr (m ! nat i ! nat j)
      else Inl undefined_behaviour)"

text \<open>
  A discretized field holds a pointer \<^verbatim>\<open>MatrixType* data_\<close> to a table it does not own.
  The tables live in a heap, addressed by natural numbers; a pointer is \<open>Some a\<close>, and
  \<open>None\<close> is the pointer the defaulted constructor leaves uninitialised.
\<close>

type_synonym addr = nat
type_synonym 'd heap = "addr \<Rightarrow> 'd DMatrix option"

definition rows :: "'d list \<Rightarrow> int" where
  "rows p = int (length p)"

subsection \<open>Expression nodes\<close>

text \<open>
  One constructor per node class, holding the members of the object. The first field of
  each is \<^verbatim>\<open>dynamic_inner_size_\<close> of the \<^verbatim>\<open>ScalarExpr\<close> base sub-object.
  \<^item> \<open>Scalar_obj\<close>: \<^verbatim>\<open>value_\<close>.
  \<^item> \<open>DiscretizedScalarField_obj\<close>: \<^verbatim>\<open>data_\<close>, \<^verbatim>\<open>value_\<close>.
  \<^item> \<open>ScalarBinOp_obj\<close>: \<^verbatim>\<open>op1_\<close>, \<^verbatim>\<open>op2_\<close>, \<^verbatim>\<open>f_\<close>.
  \<^item> \<open>ScalarUnOp_obj\<close>: \<^verbatim>\<open>op_\<close>, \<^verbatim>\<open>f_\<close>.
  \<^item> \<open>ScalarNegationOp_obj\<close>: \<^verbatim>\<open>op_\<close>.
\<close>

datatype 'd ScalarExpr =
    Scalar_obj int 'd
  | DiscretizedScalarField_obj int "addr option" 'd
  | ScalarBinOp_obj int "'d ScalarExpr" "'d ScalarExpr" "'d \<Rightarrow> 'd \<Rightarrow> 'd"
  | ScalarUnOp_obj int "'d ScalarExpr" "'d \<Rightarrow> 'd"
  | ScalarNegationOp_obj int "'d ScalarExpr"

fun dynamic_inner_size :: "'d ScalarExpr \<Rightarrow> int" where
  "dynamic_inner_size (Scalar_obj n v) = n"
| "dynamic_inner_size (DiscretizedScalarField_obj n d v) = n"
| "dynamic_inner_size (ScalarBinOp_obj n op1 op2 f) = n"
| "dynamic_inner_size (ScalarUnOp_obj n op f) = n"
| "dynamic_inner_size (ScalarNegationOp_obj n op) = n"

text \<open>
  \<^verbatim>\<open>int inner_size() const { return (N == Dynamic) ? dynamic_inner_size_ : static_inner_size; }\<close>
  It is a member of the base class, where \<^verbatim>\<open>static_inner_size\<close> is \<^verbatim>\<open>N\<close>.
\<close>

definition inner_size :: "int \<Rightarrow> 'd ScalarExpr \<Rightarrow> int" where
  "inner_size N e = (if N = Dynamic then dynamic_inner_size e else N)"

text \<open>
  \<^verbatim>\<open>resize(int n) { dynamic_inner_size_ = n; }\<close>, enabled for \<^verbatim>\<open>N == Dynamic\<close> only:
  for a fixed arity the call does not compile, which is \<open>None\<close>.
\<close>

fun set_dynamic_inner_size :: "int \<Rightarrow> 'd ScalarExpr \<Rightarrow> 'd ScalarExpr" where
  "set_dynamic_inner_size k (Scalar_obj n v) = Scalar_obj k v"
| "set_dynamic_inner_size k (DiscretizedScalarField_obj n d v) = DiscretizedScalarField_obj k d v"
| "set_dynamic_inner_size k (ScalarBinOp_obj n op1 op2 f) = ScalarBinOp_obj k op1 op2 f"
| "set_dynamic_inner_size k (ScalarUnOp_obj n op f) = ScalarUnOp_obj k op f"
| "set_dynamic_inner_size k (ScalarNegationOp_obj n op) = ScalarNegationOp_obj k op"

definition resize :: "int \<Rightarrow> int \<Rightarrow> 'd ScalarExpr \<Rightarrow> 'd ScalarExpr option" where
  "resize N n e = (if N = Dynamic then Some (set_dynamic_inner_size n e) else None)"

subsection \<open>Constructors\<close>

text \<open>\<^verbatim>\<open>Scalar(double value, int n) : Base(n), value_(value) { }\<close>\<close>

definition Scalar :: "'d \<Rightarrow> int \<Rightarrow> 'd ScalarExpr" where
  "Scalar v n = Scalar_obj n v"

text \<open>
  \<^verbatim>\<open>DiscretizedScalarField() = default;\<close> and
  \<^verbatim>\<open>DiscretizedScalarField(MatrixType& data) : data_(&data) {};\<close>
  Both default-construct the base (\<^verbatim>\<open>dynamic_inner_size_ = 0\<close>) and take the member
  initialiser \<^verbatim>\<open>mutable double value_ = 0\<close>.
\<close>

definition DiscretizedScalarField_default :: "('d::zero) ScalarExpr" where
  "DiscretizedScalarField_default = DiscretizedScalarField_obj 0 None 0"

definition DiscretizedScalarField :: "addr \<Rightarrow> ('d::zero) ScalarExpr" where
  "DiscretizedScalarField data = DiscretizedScalarField_obj 0 (Some data) 0"

text \<open>
  \<^verbatim>\<open>ScalarBinOp(const OP1& op1, const OP2& op2, BinaryOperation f) :
       Base(op1.inner_size()), op1_(op1), op2_(op2), f_(f) {
       if constexpr (N == Dynamic) { fdapde_assert(op1_.inner_size() == op2_.inner_size()); }
   };\<close>
  The static assertion of the class compares the static arities of the operand types;
  they are both \<^verbatim>\<open>N\<close> here.
\<close>

definition ScalarBinOp ::
  "int \<Rightarrow> 'd ScalarExpr \<Rightarrow> 'd ScalarExpr \<Rightarrow> ('d \<Rightarrow> 'd \<Rightarrow> 'd) \<Rightarrow> error + 'd ScalarExpr" where
  "ScalarBinOp N op1 op2 f =
     (case (if N = Dynamic
            then fdapde_assert (inner_size N op1 = inner_size N op2)
                   ''op1_.inner_size() == op2_.inner_size()''
            else Inr ()) of
        Inl e \<Rightarrow> Inl e
      | Inr _ \<Rightarrow> Inr (ScalarBinOp_obj (inner_size N op1) op1 op2 f))"

text \<open>\<^verbatim>\<open>ScalarUnOp(const OP& op, UnaryOperation f, int n) : Base(n), op_(op), f_(f) {};\<close>\<close>

definition ScalarUnOp :: "'d ScalarExpr \<Rightarrow> ('d \<Rightarrow> 'd) \<Rightarrow> int \<Rightarrow> 'd ScalarExpr" where
  "ScalarUnOp op f n = ScalarUnOp_obj n op f"

text \<open>\<^verbatim>\<open>ScalarNegationOp(const OP& op, int n) : Base(n), op_(op) {};\<close>\<close>

definition ScalarNegationOp :: "'d ScalarExpr \<Rightarrow> int \<Rightarrow> 'd ScalarExpr" where
  "ScalarNegationOp op n = ScalarNegationOp_obj n op"

subsection \<open>Evaluation: \<^verbatim>\<open>operator()\<close>\<close>

text \<open>
  \<^item> \<^verbatim>\<open>Scalar\<close>, \<^verbatim>\<open>DiscretizedScalarField\<close>: \<^verbatim>\<open>return value_;\<close> (the point is
    \<^verbatim>\<open>[[maybe_unused]]\<close>).
  \<^item> \<^verbatim>\<open>ScalarBinOp\<close>:
    \<^verbatim>\<open>if constexpr (N == Dynamic) { fdapde_assert(p.rows() == Base::inner_size()); }
      return f_(op1_(p), op2_(p));\<close>
  \<^item> \<^verbatim>\<open>ScalarUnOp\<close>: \<^verbatim>\<open>return f_(op_(p));\<close>
  \<^item> \<^verbatim>\<open>ScalarNegationOp\<close>: \<^verbatim>\<open>return -op_(p);\<close>
  C++ does not fix the order in which the two arguments of \<^verbatim>\<open>f_\<close> are evaluated. The
  model evaluates \<^verbatim>\<open>op1_\<close> first; \<open>evaluate_error\<close> below shows that the choice cannot
  be observed, since every failure of an evaluation is the same exception.
\<close>

fun evaluate :: "int \<Rightarrow> ('d::uminus) ScalarExpr \<Rightarrow> 'd list \<Rightarrow> error + 'd" where
  "evaluate N (Scalar_obj n v) p = Inr v"
| "evaluate N (DiscretizedScalarField_obj n d v) p = Inr v"
| "evaluate N (ScalarBinOp_obj n op1 op2 f) p =
     (case (if N = Dynamic
            then fdapde_assert (rows p = inner_size N (ScalarBinOp_obj n op1 op2 f))
                   ''p.rows() == Base::inner_size()''
            else Inr ()) of
        Inl e \<Rightarrow> Inl e
      | Inr _ \<Rightarrow>
          (case evaluate N op1 p of
             Inl e \<Rightarrow> Inl e
           | Inr x \<Rightarrow>
               (case evaluate N op2 p of
                  Inl e \<Rightarrow> Inl e
                | Inr y \<Rightarrow> Inr (f x y))))"
| "evaluate N (ScalarUnOp_obj n op f) p =
     (case evaluate N op p of Inl e \<Rightarrow> Inl e | Inr x \<Rightarrow> Inr (f x))"
| "evaluate N (ScalarNegationOp_obj n op) p =
     (case evaluate N op p of Inl e \<Rightarrow> Inl e | Inr x \<Rightarrow> Inr (- x))"

subsection \<open>Forwarding\<close>

text \<open>
  \<^item> \<^verbatim>\<open>ScalarExpr\<close> (inherited by \<^verbatim>\<open>Scalar\<close> and \<^verbatim>\<open>ScalarUnOp\<close>):
    \<^verbatim>\<open>template <typename T> void forward(T t) const { return; }\<close>
  \<^item> \<^verbatim>\<open>DiscretizedScalarField\<close>:
    \<^verbatim>\<open>void forward(int i) const { value_ = data_->operator()(i, 0); }\<close>
  \<^item> \<^verbatim>\<open>ScalarBinOp\<close>: \<^verbatim>\<open>op1_.forward(i); op2_.forward(i); return *this;\<close>
  \<^item> \<^verbatim>\<open>ScalarNegationOp\<close>: \<^verbatim>\<open>op_.forward(i); return *this;\<close>
  The member \<^verbatim>\<open>value_\<close> is \<^verbatim>\<open>mutable\<close>: forwarding changes the leaves of the tree in
  place. The model returns the tree after the call. Dereferencing a pointer that holds
  no table, and reading outside the table, are undefined.
\<close>

fun forward :: "'d heap \<Rightarrow> int \<Rightarrow> 'd ScalarExpr \<Rightarrow> error + 'd ScalarExpr" where
  "forward h i (Scalar_obj n v) = Inr (Scalar_obj n v)"
| "forward h i (DiscretizedScalarField_obj n d v) =
     (case d of
        None \<Rightarrow> Inl undefined_behaviour
      | Some a \<Rightarrow>
          (case h a of
             None \<Rightarrow> Inl undefined_behaviour
           | Some m \<Rightarrow>
               (case coeff m i 0 of
                  Inl e \<Rightarrow> Inl e
                | Inr v' \<Rightarrow> Inr (DiscretizedScalarField_obj n d v'))))"
| "forward h i (ScalarBinOp_obj n op1 op2 f) =
     (case forward h i op1 of
        Inl e \<Rightarrow> Inl e
      | Inr op1' \<Rightarrow>
          (case forward h i op2 of
             Inl e \<Rightarrow> Inl e
           | Inr op2' \<Rightarrow> Inr (ScalarBinOp_obj n op1' op2' f)))"
| "forward h i (ScalarUnOp_obj n op f) = Inr (ScalarUnOp_obj n op f)"
| "forward h i (ScalarNegationOp_obj n op) =
     (case forward h i op of
        Inl e \<Rightarrow> Inl e
      | Inr op' \<Rightarrow> Inr (ScalarNegationOp_obj n op'))"

text \<open>
  The values held by the discretized leaves of a tree, from left to right: what a call of
  \<open>forward\<close> can change.
\<close>

fun field_values :: "'d ScalarExpr \<Rightarrow> 'd list" where
  "field_values (Scalar_obj n v) = []"
| "field_values (DiscretizedScalarField_obj n d v) = [v]"
| "field_values (ScalarBinOp_obj n op1 op2 f) = field_values op1 @ field_values op2"
| "field_values (ScalarUnOp_obj n op f) = field_values op"
| "field_values (ScalarNegationOp_obj n op) = field_values op"

subsection \<open>The operator layer\<close>

text \<open>
  \<^verbatim>\<open>DEFINE_SCALAR_BINARY_OPERATOR(OPERATOR, FUNCTOR)\<close> defines three overloads:
  \<^verbatim>\<open>OPERATOR(op1, op2)  = ScalarBinOp {op1.get(), op2.get(), FUNCTOR()}
   OPERATOR(op1, double) = ScalarBinOp (op1.get(), Scalar<N>(op2, op1.get().inner_size()), FUNCTOR())
   OPERATOR(double, op2) = ScalarBinOp (Scalar<N>(op1, op2.get().inner_size()), op2.get(), FUNCTOR())\<close>
\<close>

definition scalar_binary_operator ::
  "('d \<Rightarrow> 'd \<Rightarrow> 'd) \<Rightarrow> int \<Rightarrow> 'd ScalarExpr \<Rightarrow> 'd ScalarExpr \<Rightarrow> error + 'd ScalarExpr" where
  "scalar_binary_operator FUNCTOR N op1 op2 = ScalarBinOp N op1 op2 FUNCTOR"

definition scalar_binary_operator_right ::
  "('d \<Rightarrow> 'd \<Rightarrow> 'd) \<Rightarrow> int \<Rightarrow> 'd ScalarExpr \<Rightarrow> 'd \<Rightarrow> error + 'd ScalarExpr" where
  "scalar_binary_operator_right FUNCTOR N op1 op2 =
     ScalarBinOp N op1 (Scalar op2 (inner_size N op1)) FUNCTOR"

definition scalar_binary_operator_left ::
  "('d \<Rightarrow> 'd \<Rightarrow> 'd) \<Rightarrow> int \<Rightarrow> 'd \<Rightarrow> 'd ScalarExpr \<Rightarrow> error + 'd ScalarExpr" where
  "scalar_binary_operator_left FUNCTOR N op1 op2 =
     ScalarBinOp N (Scalar op1 (inner_size N op2)) op2 FUNCTOR"

text \<open>
  The four instantiations, with \<^verbatim>\<open>std::plus<>\<close>, \<^verbatim>\<open>std::minus<>\<close>,
  \<^verbatim>\<open>std::multiplies<>\<close> and \<^verbatim>\<open>std::divides<>\<close>.
\<close>

definition operator_plus ::
  "int \<Rightarrow> ('d::plus) ScalarExpr \<Rightarrow> 'd ScalarExpr \<Rightarrow> error + 'd ScalarExpr" where
  "operator_plus = scalar_binary_operator (+)"

definition operator_minus ::
  "int \<Rightarrow> ('d::minus) ScalarExpr \<Rightarrow> 'd ScalarExpr \<Rightarrow> error + 'd ScalarExpr" where
  "operator_minus = scalar_binary_operator (-)"

definition operator_times ::
  "int \<Rightarrow> ('d::times) ScalarExpr \<Rightarrow> 'd ScalarExpr \<Rightarrow> error + 'd ScalarExpr" where
  "operator_times = scalar_binary_operator (*)"

definition operator_divide ::
  "int \<Rightarrow> ('d::divide) ScalarExpr \<Rightarrow> 'd ScalarExpr \<Rightarrow> error + 'd ScalarExpr" where
  "operator_divide = scalar_binary_operator divide"

text \<open>
  \<^verbatim>\<open>ScalarNegationOp<N, E> operator-() const
     { return ScalarNegationOp<N, E>(get(), dynamic_inner_size_); }\<close>
\<close>

definition operator_uminus :: "'d ScalarExpr \<Rightarrow> 'd ScalarExpr" where
  "operator_uminus e = ScalarNegationOp e (dynamic_inner_size e)"

text \<open>
  \<^verbatim>\<open>DEFINE_SCALAR_UNARY_OPERATOR(OPERATOR, FUNCTION)\<close>:
  \<^verbatim>\<open>std::function<double(double)> OPERATOR_ = [](double x) -> double { return FUNCTION(x); };
   return ScalarUnOp(op1.get(), OPERATOR_, op1.get().inner_size());\<close>
\<close>

definition scalar_unary_operator ::
  "('d \<Rightarrow> 'd) \<Rightarrow> int \<Rightarrow> 'd ScalarExpr \<Rightarrow> 'd ScalarExpr" where
  "scalar_unary_operator FUNCTION N op1 = ScalarUnOp op1 (\<lambda>x. FUNCTION x) (inner_size N op1)"

text \<open>
  The elementary functions \<^verbatim>\<open>std::sin\<close>, \<^verbatim>\<open>std::cos\<close>, \<^verbatim>\<open>std::tan\<close>, \<^verbatim>\<open>std::exp\<close> and
  \<^verbatim>\<open>std::log\<close> belong to the C++ standard library, not to the repository: they are a
  parameter of the model.
\<close>

record 'd cmath =
  std_sin :: "'d \<Rightarrow> 'd"
  std_cos :: "'d \<Rightarrow> 'd"
  std_tan :: "'d \<Rightarrow> 'd"
  std_exp :: "'d \<Rightarrow> 'd"
  std_log :: "'d \<Rightarrow> 'd"

definition sin_expr :: "'d cmath \<Rightarrow> int \<Rightarrow> 'd ScalarExpr \<Rightarrow> 'd ScalarExpr" where
  "sin_expr lib = scalar_unary_operator (std_sin lib)"

definition cos_expr :: "'d cmath \<Rightarrow> int \<Rightarrow> 'd ScalarExpr \<Rightarrow> 'd ScalarExpr" where
  "cos_expr lib = scalar_unary_operator (std_cos lib)"

definition tan_expr :: "'d cmath \<Rightarrow> int \<Rightarrow> 'd ScalarExpr \<Rightarrow> 'd ScalarExpr" where
  "tan_expr lib = scalar_unary_operator (std_tan lib)"

definition exp_expr :: "'d cmath \<Rightarrow> int \<Rightarrow> 'd ScalarExpr \<Rightarrow> 'd ScalarExpr" where
  "exp_expr lib = scalar_unary_operator (std_exp lib)"

definition log_expr :: "'d cmath \<Rightarrow> int \<Rightarrow> 'd ScalarExpr \<Rightarrow> 'd ScalarExpr" where
  "log_expr lib = scalar_unary_operator (std_log lib)"

text \<open>The result of applying a function to the result of an evaluation that may throw.\<close>

definition apply1 :: "('a \<Rightarrow> 'b) \<Rightarrow> error + 'a \<Rightarrow> error + 'b" where
  "apply1 f r = (case r of Inl e \<Rightarrow> Inl e | Inr x \<Rightarrow> Inr (f x))"

definition apply2 :: "('a \<Rightarrow> 'b \<Rightarrow> 'c) \<Rightarrow> error + 'a \<Rightarrow> error + 'b \<Rightarrow> error + 'c" where
  "apply2 f r s =
     (case r of
        Inl e \<Rightarrow> Inl e
      | Inr x \<Rightarrow> (case s of Inl e \<Rightarrow> Inl e | Inr y \<Rightarrow> Inr (f x y)))"

section \<open>Hyperplanes\<close>

text \<open>
  Modelled from the spec: the class \<^verbatim>\<open>HyperPlane\<close> of \<^verbatim>\<open>fdaPDE/geometry.h\<close> is not
  among the sources; only its test \<^verbatim>\<open>vector_space_test.cpp\<close> is. The definitions below
  follow the operations of the spec (section 4.5) word by word. Coordinates are real
  numbers: the spec states these operations as exact formulas, and the test compares
  their results up to a tolerance. A vector is the list of its coordinates.
\<close>

definition vadd :: "real list \<Rightarrow> real list \<Rightarrow> real list" where
  "vadd u v = map2 (+) u v"

definition vsub :: "real list \<Rightarrow> real list \<Rightarrow> real list" where
  "vsub u v = map2 (-) u v"

definition scale :: "real \<Rightarrow> real list \<Rightarrow> real list" where
  "scale c v = map ((*) c) v"

definition dot :: "real list \<Rightarrow> real list \<Rightarrow> real" where
  "dot u v = sum_list (map2 (*) u v)"

text \<open>The sum of a list of vectors of dimension \<open>m\<close>.\<close>

definition vsum :: "nat \<Rightarrow> real list list \<Rightarrow> real list" where
  "vsum m vs = foldr vadd vs (replicate m 0)"

text \<open>
  Modelled from the spec: a hyperplane is "an offset point in ambient space" and "an
  orthonormal basis of k vectors spanning the subspace's linear part".
\<close>

record HyperPlane =
  offset :: "real list"
  basis :: "real list list"

text \<open>
  Modelled from the spec: "Evaluate(local_coords) -> ambient_point: maps intrinsic
  coordinates (k numbers) to the ambient point offset + \<Sigma> local_coords[i] * basis[i]".
\<close>

definition Evaluate :: "HyperPlane \<Rightarrow> real list \<Rightarrow> real list" where
  "Evaluate H local_coords =
     vadd (offset H)
       (vsum (length (offset H))
          (map (\<lambda>i. scale (local_coords ! i) (basis H ! i)) [0..<length (basis H)]))"

text \<open>
  Modelled from the spec: "Project(ambient_point) -> ambient_point: orthogonal projection
  of an arbitrary ambient point onto the affine subspace:
  offset + \<Sigma> \<langle>ambient_point - offset, basis[i]\<rangle> * basis[i]".
\<close>

definition Project :: "HyperPlane \<Rightarrow> real list \<Rightarrow> real list" where
  "Project H ambient_point =
     vadd (offset H)
       (vsum (length (offset H))
          (map (\<lambda>i. scale (dot (vsub ambient_point (offset H)) (basis H ! i)) (basis H ! i))
             [0..<length (basis H)]))"

text \<open>
  Modelled from the spec: "ProjectOnto(ambient_point) -> local_coords: same projection
  expressed in the k intrinsic coordinates:
  local_coords[i] = \<langle>ambient_point - offset, basis[i]\<rangle>".
\<close>

definition ProjectOnto :: "HyperPlane \<Rightarrow> real list \<Rightarrow> real list" where
  "ProjectOnto H ambient_point =
     map (\<lambda>i. dot (vsub ambient_point (offset H)) (basis H ! i)) [0..<length (basis H)]"

section \<open>Properties of evaluation\<close>

text \<open>
  Every failure of an evaluation is the same exception, thrown by the check of a binary
  node. So the order in which a binary node evaluates its two operands is not observable.
\<close>

lemma evaluate_error:
  "evaluate N e p = Inl err \<Longrightarrow>
     err = runtime_error ''Condition p.rows() == Base::inner_size() failed''"
  by (induction e arbitrary: err)
     (auto simp: fdapde_assert_def split: if_splits sum.splits)

lemma ScalarBinOp_Inr:
  "ScalarBinOp N op1 op2 f = Inr e \<longleftrightarrow>
     (N = Dynamic \<longrightarrow> inner_size N op1 = inner_size N op2) \<and>
     e = ScalarBinOp_obj (inner_size N op1) op1 op2 f"
  by (auto simp: ScalarBinOp_def fdapde_assert_def)

lemma inner_size_ScalarBinOp_obj:
  "inner_size N (ScalarBinOp_obj (inner_size N a) a b f) = inner_size N a"
  by (simp add: inner_size_def)

lemma evaluate_ScalarBinOp_obj:
  assumes "rows p = inner_size N (ScalarBinOp_obj n a b f)"
  shows "evaluate N (ScalarBinOp_obj n a b f) p = apply2 f (evaluate N a p) (evaluate N b p)"
proof (cases "N = Dynamic")
  case True
  with assms show ?thesis by (simp add: fdapde_assert_def apply2_def)
next
  case False
  then show ?thesis by (simp add: apply2_def)
qed

lemma evaluate_ScalarBinOp_obj_mismatch:
  assumes "N = Dynamic" and "rows p \<noteq> inner_size N (ScalarBinOp_obj n op1 op2 f)"
  shows "evaluate N (ScalarBinOp_obj n op1 op2 f) p =
           Inl (runtime_error ''Condition p.rows() == Base::inner_size() failed'')"
  using assms by (simp add: fdapde_assert_def)

lemma evaluate_binary:
  assumes "inner_size N a = inner_size N b" and "rows p = inner_size N a"
  shows "\<exists>e. scalar_binary_operator F N a b = Inr e \<and>
             evaluate N e p = apply2 F (evaluate N a p) (evaluate N b p)"
proof -
  have "scalar_binary_operator F N a b = Inr (ScalarBinOp_obj (inner_size N a) a b F)"
    using assms(1) by (auto simp: scalar_binary_operator_def ScalarBinOp_Inr)
  moreover have "evaluate N (ScalarBinOp_obj (inner_size N a) a b F) p =
      apply2 F (evaluate N a p) (evaluate N b p)"
    using assms(2) by (intro evaluate_ScalarBinOp_obj) (simp add: inner_size_ScalarBinOp_obj)
  ultimately show ?thesis by blast
qed

text \<open>
  C1: for two expressions \<open>a\<close> and \<open>b\<close> of equal arity and a point \<open>p\<close> of that arity,
  each of the overloaded operators \<open>+\<close>, \<open>-\<close>, \<open>*\<close>, \<open>/\<close> builds a node, and the node
  evaluates at \<open>p\<close> to the corresponding binary function applied to the evaluations of
  \<open>a\<close> and \<open>b\<close> at \<open>p\<close> (and throws when one of these throws).
\<close>

theorem binary_operators_evaluate:
  fixes a b :: "('d::{plus,minus,times,divide,uminus}) ScalarExpr"
  assumes "inner_size N a = inner_size N b" and "rows p = inner_size N a"
  shows
    "(\<exists>e. operator_plus N a b = Inr e \<and>
          evaluate N e p = apply2 (+) (evaluate N a p) (evaluate N b p)) \<and>
     (\<exists>e. operator_minus N a b = Inr e \<and>
          evaluate N e p = apply2 (-) (evaluate N a p) (evaluate N b p)) \<and>
     (\<exists>e. operator_times N a b = Inr e \<and>
          evaluate N e p = apply2 (*) (evaluate N a p) (evaluate N b p)) \<and>
     (\<exists>e. operator_divide N a b = Inr e \<and>
          evaluate N e p = apply2 divide (evaluate N a p) (evaluate N b p))"
  unfolding operator_plus_def operator_minus_def operator_times_def operator_divide_def
  using evaluate_binary [OF assms] by blast

theorem binary_operators_evaluate_witness:
  "(\<exists>e. operator_plus Dynamic (Scalar (2::real) 2) (Scalar 3 2) = Inr e \<and>
        evaluate Dynamic e [0, 0] = Inr 5) \<and>
   (\<exists>e. operator_minus Dynamic (Scalar (2::real) 2) (Scalar 3 2) = Inr e \<and>
        evaluate Dynamic e [0, 0] = Inr (- 1)) \<and>
   (\<exists>e. operator_times Dynamic (Scalar (2::real) 2) (Scalar 3 2) = Inr e \<and>
        evaluate Dynamic e [0, 0] = Inr 6) \<and>
   (\<exists>e. operator_divide Dynamic (Scalar (2::real) 2) (Scalar 3 2) = Inr e \<and>
        evaluate Dynamic e [0, 0] = Inr (2 / 3))"
  using binary_operators_evaluate [of Dynamic "Scalar (2::real) 2" "Scalar 3 2" "[0, 0]"]
  by (simp add: inner_size_def Scalar_def rows_def apply2_def)

text \<open>
  C2, as amended: with dynamic arity, evaluating a binary operator node at a point whose
  dimension differs from the node's \<open>inner_size\<close> throws the runtime error of the
  failed condition \<^verbatim>\<open>p.rows() == Base::inner_size()\<close>; the leaves (\<^verbatim>\<open>Scalar\<close> and
  \<^verbatim>\<open>DiscretizedScalarField\<close>) do not look at the point and return their stored value at
  every point.
\<close>

theorem evaluate_dimension_check:
  "(N = Dynamic \<and> rows p \<noteq> inner_size N (ScalarBinOp_obj n op1 op2 f) \<longrightarrow>
      evaluate N (ScalarBinOp_obj n op1 op2 f) p =
        Inl (runtime_error ''Condition p.rows() == Base::inner_size() failed'')) \<and>
   evaluate N (Scalar v k) p = Inr v \<and>
   evaluate N (DiscretizedScalarField_obj k d v) p = Inr v"
  using evaluate_ScalarBinOp_obj_mismatch [of N p n op1 op2 f]
  by (auto simp: Scalar_def)

theorem evaluate_dimension_check_witness:
  "evaluate Dynamic (ScalarBinOp_obj 3 (Scalar (1::real) 3) (Scalar 2 3) (+)) [0, 0] =
     Inl (runtime_error ''Condition p.rows() == Base::inner_size() failed'') \<and>
   evaluate Dynamic (Scalar (1::real) 3) [0, 0] = Inr 1 \<and>
   evaluate Dynamic (DiscretizedScalarField_obj 3 None (1::real)) [0, 0] = Inr 1"
  using evaluate_dimension_check
    [of Dynamic "[0, 0]" 3 "Scalar (1::real) 3" "Scalar 2 3" "(+)" 1 3 None]
  by (simp add: inner_size_def rows_def)

text \<open>
  C2 as stated fails: a \<^verbatim>\<open>Scalar\<close> leaf of dynamic arity 3 evaluates at a point of
  dimension 2 without any failure.
\<close>

theorem evaluate_leaf_unchecked:
  "inner_size Dynamic (Scalar (1::real) 3) \<noteq> rows [0::real, 0] \<and>
   evaluate Dynamic (Scalar (1::real) 3) [0, 0] = Inr 1"
  by (simp add: inner_size_def Scalar_def rows_def)

text \<open>
  With a fixed arity no node checks anything at run time, so every evaluation returns a
  value.
\<close>

lemma evaluate_static_total:
  "N \<noteq> Dynamic \<Longrightarrow> \<exists>x. evaluate N e p = Inr x"
  by (induction e) auto

lemma evaluate_operator_uminus:
  "evaluate N (operator_uminus a) p = apply1 uminus (evaluate N a p)"
  by (simp add: operator_uminus_def ScalarNegationOp_def apply1_def)

lemma evaluate_scalar_unary_operator:
  "evaluate N (scalar_unary_operator g N a) p = apply1 g (evaluate N a p)"
  by (simp add: scalar_unary_operator_def ScalarUnOp_def apply1_def)

text \<open>
  C6: the node built by the unary \<^verbatim>\<open>operator-\<close> evaluates, at every point, to the
  negation of the evaluation of its operand (and throws when the operand throws). So
  whenever the operand returns \<open>x\<close> the node returns \<open>- x\<close>; with a fixed arity the
  operand always returns a value, and so does the node; and over a leaf that holds \<open>v\<close>
  the node returns \<open>- v\<close> for every arity and every point.
\<close>

theorem negation_evaluate:
  "evaluate N (operator_uminus a) p = apply1 uminus (evaluate N a p) \<and>
   (\<forall>x. evaluate N a p = Inr x \<longrightarrow> evaluate N (operator_uminus a) p = Inr (- x)) \<and>
   (N \<noteq> Dynamic \<longrightarrow>
      (\<exists>x. evaluate N a p = Inr x \<and> evaluate N (operator_uminus a) p = Inr (- x))) \<and>
   evaluate N (operator_uminus (Scalar v n)) p = Inr (- v) \<and>
   evaluate N (operator_uminus (DiscretizedScalarField_obj n d v)) p = Inr (- v)"
proof -
  have static: "\<exists>x. evaluate N a p = Inr x \<and> evaluate N (operator_uminus a) p = Inr (- x)"
    if "N \<noteq> Dynamic"
  proof -
    from that obtain x where "evaluate N a p = Inr x"
      using evaluate_static_total by blast
    then show ?thesis
      by (simp add: evaluate_operator_uminus apply1_def)
  qed
  show ?thesis
    using static by (simp add: evaluate_operator_uminus apply1_def Scalar_def)
qed

theorem negation_evaluate_witness:
  "evaluate Dynamic
     (operator_uminus (ScalarBinOp_obj 2 (Scalar (2::real) 2) (Scalar 3 2) (+))) [0, 0] =
     Inr (- 5) \<and>
   evaluate 2 (operator_uminus (Scalar (4::real) 0)) [0, 0] = Inr (- 4) \<and>
   evaluate Dynamic (operator_uminus (Scalar (4::real) 3)) [0, 0] = Inr (- 4)"
  using negation_evaluate
      [of Dynamic "ScalarBinOp_obj 2 (Scalar (2::real) 2) (Scalar 3 2) (+)" "[0, 0]" 4 3]
    negation_evaluate [of 2 "Scalar (4::real) 0" "[0, 0]" 4 0]
  by (simp add: Scalar_def inner_size_def rows_def fdapde_assert_def apply1_def Dynamic_def)

text \<open>
  C7: the nodes built by the free functions \<^verbatim>\<open>sin\<close>, \<^verbatim>\<open>cos\<close>, \<^verbatim>\<open>tan\<close>, \<^verbatim>\<open>exp\<close> and
  \<^verbatim>\<open>log\<close> evaluate, at every point, to the corresponding function of the standard
  library applied to the evaluation of the operand (and throw when the operand throws). So
  whenever the operand returns \<open>x\<close> the nodes return the functions of \<open>x\<close>; with a fixed
  arity the operand always returns a value, and so do the nodes; and over a \<^verbatim>\<open>Scalar\<close>
  that holds \<open>v\<close> the nodes return the functions of \<open>v\<close> for every arity and every point.
\<close>

theorem unary_functions_evaluate:
  "evaluate N (sin_expr lib N a) p = apply1 (std_sin lib) (evaluate N a p) \<and>
   evaluate N (cos_expr lib N a) p = apply1 (std_cos lib) (evaluate N a p) \<and>
   evaluate N (tan_expr lib N a) p = apply1 (std_tan lib) (evaluate N a p) \<and>
   evaluate N (exp_expr lib N a) p = apply1 (std_exp lib) (evaluate N a p) \<and>
   evaluate N (log_expr lib N a) p = apply1 (std_log lib) (evaluate N a p) \<and>
   (\<forall>x. evaluate N a p = Inr x \<longrightarrow>
      evaluate N (sin_expr lib N a) p = Inr (std_sin lib x) \<and>
      evaluate N (cos_expr lib N a) p = Inr (std_cos lib x) \<and>
      evaluate N (tan_expr lib N a) p = Inr (std_tan lib x) \<and>
      evaluate N (exp_expr lib N a) p = Inr (std_exp lib x) \<and>
      evaluate N (log_expr lib N a) p = Inr (std_log lib x)) \<and>
   (N \<noteq> Dynamic \<longrightarrow>
      (\<exists>x. evaluate N a p = Inr x \<and>
        evaluate N (sin_expr lib N a) p = Inr (std_sin lib x) \<and>
        evaluate N (cos_expr lib N a) p = Inr (std_cos lib x) \<and>
        evaluate N (tan_expr lib N a) p = Inr (std_tan lib x) \<and>
        evaluate N (exp_expr lib N a) p = Inr (std_exp lib x) \<and>
        evaluate N (log_expr lib N a) p = Inr (std_log lib x))) \<and>
   evaluate N (sin_expr lib N (Scalar v n)) p = Inr (std_sin lib v) \<and>
   evaluate N (cos_expr lib N (Scalar v n)) p = Inr (std_cos lib v) \<and>
   evaluate N (tan_expr lib N (Scalar v n)) p = Inr (std_tan lib v) \<and>
   evaluate N (exp_expr lib N (Scalar v n)) p = Inr (std_exp lib v) \<and>
   evaluate N (log_expr lib N (Scalar v n)) p = Inr (std_log lib v)"
proof -
  note defs = sin_expr_def cos_expr_def tan_expr_def exp_expr_def log_expr_def
    evaluate_scalar_unary_operator apply1_def
  have static: "\<exists>x. evaluate N a p = Inr x \<and>
        evaluate N (sin_expr lib N a) p = Inr (std_sin lib x) \<and>
        evaluate N (cos_expr lib N a) p = Inr (std_cos lib x) \<and>
        evaluate N (tan_expr lib N a) p = Inr (std_tan lib x) \<and>
        evaluate N (exp_expr lib N a) p = Inr (std_exp lib x) \<and>
        evaluate N (log_expr lib N a) p = Inr (std_log lib x)"
    if "N \<noteq> Dynamic"
  proof -
    from that obtain x where "evaluate N a p = Inr x"
      using evaluate_static_total by blast
    then show ?thesis
      by (simp add: defs)
  qed
  show ?thesis
    using static by (simp add: defs Scalar_def)
qed

theorem unary_functions_evaluate_witness:
  "evaluate Dynamic
     (sin_expr \<lparr>std_sin = sin, std_cos = cos, std_tan = tan, std_exp = exp, std_log = ln\<rparr>
        Dynamic (ScalarBinOp_obj 2 (Scalar (2::real) 2) (Scalar 3 2) (+))) [0, 0] =
     Inr (sin 5) \<and>
   evaluate Dynamic
     (cos_expr \<lparr>std_sin = sin, std_cos = cos, std_tan = tan, std_exp = exp, std_log = ln\<rparr>
        Dynamic (ScalarBinOp_obj 2 (Scalar (2::real) 2) (Scalar 3 2) (+))) [0, 0] =
     Inr (cos 5) \<and>
   evaluate Dynamic
     (tan_expr \<lparr>std_sin = sin, std_cos = cos, std_tan = tan, std_exp = exp, std_log = ln\<rparr>
        Dynamic (ScalarBinOp_obj 2 (Scalar (2::real) 2) (Scalar 3 2) (+))) [0, 0] =
     Inr (tan 5) \<and>
   evaluate Dynamic
     (exp_expr \<lparr>std_sin = sin, std_cos = cos, std_tan = tan, std_exp = exp, std_log = ln\<rparr>
        Dynamic (ScalarBinOp_obj 2 (Scalar (2::real) 2) (Scalar 3 2) (+))) [0, 0] =
     Inr (exp 5) \<and>
   evaluate Dynamic
     (log_expr \<lparr>std_sin = sin, std_cos = cos, std_tan = tan, std_exp = exp, std_log = ln\<rparr>
        Dynamic (ScalarBinOp_obj 2 (Scalar (2::real) 2) (Scalar 3 2) (+))) [0, 0] =
     Inr (ln 5) \<and>
   evaluate 2
     (sin_expr \<lparr>std_sin = sin, std_cos = cos, std_tan = tan, std_exp = exp, std_log = ln\<rparr>
        2 (Scalar (4::real) 0)) [0, 0] =
     Inr (sin 4)"
  using unary_functions_evaluate
      [of Dynamic
        "\<lparr>std_sin = sin, std_cos = cos, std_tan = tan, std_exp = exp, std_log = ln\<rparr>"
        "ScalarBinOp_obj 2 (Scalar (2::real) 2) (Scalar 3 2) (+)" "[0, 0]" 4 3]
    unary_functions_evaluate
      [of 2
        "\<lparr>std_sin = sin, std_cos = cos, std_tan = tan, std_exp = exp, std_log = ln\<rparr>"
        "Scalar (4::real) 0" "[0, 0]" 4 0]
  by (simp add: Scalar_def inner_size_def rows_def fdapde_assert_def apply1_def Dynamic_def)

text \<open>
  C9: a discretized scalar field that has not been forwarded evaluates to exactly 0 at
  every point, whichever constructor built it: \<^verbatim>\<open>value_\<close> is initialised to 0.
\<close>

theorem discretized_field_initial_value:
  "evaluate N (DiscretizedScalarField data) p = Inr 0 \<and>
   evaluate N DiscretizedScalarField_default p = Inr 0"
  by (simp add: DiscretizedScalarField_def DiscretizedScalarField_default_def)

section \<open>Properties of construction\<close>

text \<open>
  C4: with dynamic arity, constructing a binary operator node from two operands whose
  runtime arities differ throws a runtime error that names the failed condition; the
  constructor, and so every overloaded binary operator, returns no node.
\<close>

theorem binop_construction_mismatch:
  assumes "N = Dynamic" and "inner_size N op1 \<noteq> inner_size N op2"
  shows "ScalarBinOp N op1 op2 f =
           Inl (runtime_error ''Condition op1_.inner_size() == op2_.inner_size() failed'') \<and>
         scalar_binary_operator f N op1 op2 =
           Inl (runtime_error ''Condition op1_.inner_size() == op2_.inner_size() failed'')"
  using assms by (simp add: scalar_binary_operator_def ScalarBinOp_def fdapde_assert_def)

theorem binop_construction_mismatch_witness:
  "ScalarBinOp Dynamic (Scalar (1::real) 2) (Scalar 1 3) (+) =
     Inl (runtime_error ''Condition op1_.inner_size() == op2_.inner_size() failed'') \<and>
   scalar_binary_operator (+) Dynamic (Scalar (1::real) 2) (Scalar 1 3) =
     Inl (runtime_error ''Condition op1_.inner_size() == op2_.inner_size() failed'')"
  using binop_construction_mismatch [of Dynamic "Scalar (1::real) 2" "Scalar 1 3" "(+)"]
  by (simp add: inner_size_def Scalar_def)

text \<open>
  The overloads that take a plain \<^verbatim>\<open>double\<close> promote it to a \<^verbatim>\<open>Scalar\<close> of the
  other operand's arity, so their construction never fails.
\<close>

lemma inner_size_Scalar:
  "inner_size N (Scalar v (inner_size N e)) = inner_size N e"
  by (simp add: inner_size_def Scalar_def)

lemma scalar_binary_operator_right_constructs:
  "scalar_binary_operator_right F N op1 c =
     Inr (ScalarBinOp_obj (inner_size N op1) op1 (Scalar c (inner_size N op1)) F)"
  by (simp add: scalar_binary_operator_right_def ScalarBinOp_Inr inner_size_Scalar)

lemma scalar_binary_operator_left_constructs:
  "scalar_binary_operator_left F N c op2 =
     Inr (ScalarBinOp_obj (inner_size N op2) (Scalar c (inner_size N op2)) op2 F)"
  by (simp add: scalar_binary_operator_left_def ScalarBinOp_Inr inner_size_Scalar)

text \<open>
  C10: a binary operator node that was constructed reports the \<open>inner_size\<close> of its first
  operand and, with dynamic arity, also that of its second operand. Further composition
  keeps this arity: the negation of the node, a unary function of it, and every binary
  node constructed with it as first operand report the same \<open>inner_size\<close>.
\<close>

theorem binop_inner_size:
  assumes "ScalarBinOp N op1 op2 f = Inr e"
  shows "inner_size N e = inner_size N op1 \<and>
         (N = Dynamic \<longrightarrow> inner_size N e = inner_size N op2) \<and>
         inner_size N (operator_uminus e) = inner_size N e \<and>
         inner_size N (scalar_unary_operator g N e) = inner_size N e \<and>
         (\<forall>c k e'. ScalarBinOp N e c k = Inr e' \<longrightarrow> inner_size N e' = inner_size N e)"
  using assms
  by (auto simp: ScalarBinOp_Inr inner_size_def operator_uminus_def ScalarNegationOp_def
      scalar_unary_operator_def ScalarUnOp_def)

theorem binop_inner_size_witness:
  "ScalarBinOp Dynamic (Scalar (1::real) 2) (Scalar 5 2) (+) =
     Inr (ScalarBinOp_obj 2 (Scalar 1 2) (Scalar 5 2) (+)) \<and>
   inner_size Dynamic (ScalarBinOp_obj 2 (Scalar (1::real) 2) (Scalar 5 2) (+)) = 2 \<and>
   inner_size Dynamic (Scalar (1::real) 2) = 2 \<and>
   inner_size Dynamic (Scalar (5::real) 2) = 2 \<and>
   inner_size Dynamic
     (operator_uminus (ScalarBinOp_obj 2 (Scalar (1::real) 2) (Scalar 5 2) (+))) = 2"
proof -
  have c: "ScalarBinOp Dynamic (Scalar (1::real) 2) (Scalar 5 2) (+) =
      Inr (ScalarBinOp_obj 2 (Scalar 1 2) (Scalar 5 2) (+))"
    by (simp add: ScalarBinOp_def fdapde_assert_def inner_size_def Scalar_def)
  show ?thesis
    using c binop_inner_size [OF c]
    by (simp add: inner_size_def Scalar_def)
qed

section \<open>Properties of forwarding\<close>

text \<open>
  C5: for a discretized scalar field whose pointer holds a table with a row \<open>i\<close> that has
  a column 0, \<open>forward i\<close> followed by an evaluation at any point returns the entry at
  row \<open>i\<close>, column 0 of the table, whatever value the leaf held before.
\<close>

theorem discretized_field_forward_evaluate:
  assumes "h a = Some m" and "0 \<le> i" and "i < int (length m)" and "m ! nat i \<noteq> []"
  shows "\<exists>e. forward h i (DiscretizedScalarField_obj n (Some a) v) = Inr e \<and>
             evaluate N e p = Inr (m ! nat i ! 0)"
  using assms by (simp add: coeff_def)

theorem discretized_field_forward_evaluate_witness:
  "\<exists>e. forward (\<lambda>a. if a = 0 then Some [[5], [7::real]] else None) 1
          (DiscretizedScalarField 0) = Inr e \<and>
       evaluate 2 e [3, 4] = Inr 7"
  using discretized_field_forward_evaluate
    [of "\<lambda>a. if a = 0 then Some [[5], [7::real]] else None" 0 "[[5], [7]]" 1 0 0 2 "[3, 4]"]
  by (simp add: DiscretizedScalarField_def)

text \<open>
  C3: \<open>forward i\<close> on a binary operator node forwards to the first operand, then to the
  second, and on a negation node to its operand; on a generic unary operator node it
  returns at once, so the node is unchanged and every discretized leaf beneath it keeps
  the value it held.
\<close>

theorem forward_propagation:
  "forward h i (ScalarBinOp_obj n op1 op2 f) =
     (case forward h i op1 of
        Inl e \<Rightarrow> Inl e
      | Inr op1' \<Rightarrow>
          (case forward h i op2 of
             Inl e \<Rightarrow> Inl e
           | Inr op2' \<Rightarrow> Inr (ScalarBinOp_obj n op1' op2' f))) \<and>
   forward h i (ScalarNegationOp_obj n op) =
     (case forward h i op of
        Inl e \<Rightarrow> Inl e
      | Inr op' \<Rightarrow> Inr (ScalarNegationOp_obj n op')) \<and>
   forward h i (ScalarUnOp_obj n op g) = Inr (ScalarUnOp_obj n op g) \<and>
   field_values (ScalarUnOp_obj n op g) = field_values op"
  by simp

theorem forward_propagation_witness:
  "forward (\<lambda>a. if a = 0 then Some [[5], [7::real]] else None) 1
     (ScalarBinOp_obj 0 (DiscretizedScalarField 0)
        (ScalarNegationOp_obj 0 (DiscretizedScalarField 0)) (+)) =
     Inr (ScalarBinOp_obj 0 (DiscretizedScalarField_obj 0 (Some 0) 7)
            (ScalarNegationOp_obj 0 (DiscretizedScalarField_obj 0 (Some 0) 7)) (+)) \<and>
   forward (\<lambda>a. if a = 0 then Some [[5], [7::real]] else None) 1
     (ScalarUnOp_obj 0 (DiscretizedScalarField 0) uminus) =
     Inr (ScalarUnOp_obj 0 (DiscretizedScalarField_obj 0 (Some 0) 0) uminus)"
  using forward_propagation
    [of "\<lambda>a. if a = 0 then Some [[5], [7::real]] else None" 1 0
       "DiscretizedScalarField 0" "ScalarNegationOp_obj 0 (DiscretizedScalarField 0)" "(+)"
       "DiscretizedScalarField 0" uminus]
  by (simp add: DiscretizedScalarField_def coeff_def)

section \<open>Properties of hyperplanes\<close>

lemma ProjectOnto_nth:
  "i < length (basis H) \<Longrightarrow>
     ProjectOnto H p ! i = dot (vsub p (offset H)) (basis H ! i)"
  by (simp add: ProjectOnto_def)

text \<open>
  C8: mapping an ambient point to intrinsic coordinates with \<open>ProjectOnto\<close> and back to
  ambient space with \<open>Evaluate\<close> gives the point \<open>Project\<close> gives. It holds for every offset
  and basis, so for every validly constructed hyperplane.
\<close>

theorem hyperplane_round_trip:
  "Evaluate H (ProjectOnto H p) = Project H p"
proof -
  have coords: "map (\<lambda>i. scale (ProjectOnto H p ! i) (basis H ! i)) [0..<length (basis H)] =
        map (\<lambda>i. scale (dot (vsub p (offset H)) (basis H ! i)) (basis H ! i))
          [0..<length (basis H)]"
    by (rule map_cong) (simp_all add: ProjectOnto_nth)
  show ?thesis
    by (simp only: Evaluate_def Project_def coords)
qed

end
